theory Spec2Isabelle
  imports Main
begin

section \<open>The widget context bridge of @mcp-lite/react (useWidget.ts)\<close>

text \<open>
  The hook module reads the host-injected global \<^verbatim>\<open>window.openai\<close>, listens for the
  broadcast event \<^verbatim>\<open>openai:set_globals\<close>, and forwards actions to the host.  The embedding
  makes the browser and React explicit: the window (or its absence), the listeners registered
  on it, the calls that reached the host, and the cell and update queue of the hook's
  \<^verbatim>\<open>useState\<close>.
\<close>

subsection \<open>JavaScript values, promises and exceptions\<close>

text \<open>
  Runtime values of the opaque fields (\<^verbatim>\<open>unknown\<close> in types.ts).  \<open>Undefined\<close> is also what
  reading a missing property gives.  Numbers are the integers among the doubles.
\<close>

datatype jsval =
    Undefined
  | Null
  | Bool bool
  | Num int
  | Str string
  | Arr "jsval list"
  | Obj "(string \<times> jsval) list"

text \<open>The operator \<^verbatim>\<open>a ?? b\<close>: the right operand when the left is \<^verbatim>\<open>null\<close> or \<^verbatim>\<open>undefined\<close>.\<close>

definition coalesce :: "jsval \<Rightarrow> jsval \<Rightarrow> jsval" where
  "coalesce a b = (if a = Undefined \<or> a = Null then b else a)"

text \<open>
  A thrown value: an \<^verbatim>\<open>Error\<close> with its message, or anything else the host throws.
  A promise is described by how it ends (\<open>Pending\<close>: it never settles); a synchronous call
  returns or throws.
\<close>

datatype exn = Error string | Thrown jsval

datatype 'a promise = Fulfilled 'a | Rejected exn | Pending

datatype 'a outcome = Return 'a | Throw exn

text \<open>
  The promise of an \<^verbatim>\<open>async\<close> function whose body is \<^verbatim>\<open>return e\<close>, where \<^verbatim>\<open>e\<close> yields a promise:
  it adopts that promise, and an exception thrown while evaluating \<^verbatim>\<open>e\<close> rejects it.
\<close>

fun async_return :: "'a promise outcome \<Rightarrow> 'a promise" where
  "async_return (Return p) = p"
| "async_return (Throw e) = Rejected e"

subsection \<open>The host global, the window and the environment\<close>

text \<open>
  \<^verbatim>\<open>WindowOpenAI\<close> of types.ts: every field is optional.  A missing data field reads
  \<open>Undefined\<close>; a missing method is \<open>None\<close>.  The host's methods are the host's code: the
  model takes what each returns as given and records each call in the environment's trace.
\<close>

record openai =
  openai_theme :: jsval
  openai_displayMode :: jsval
  openai_locale :: jsval
  openai_toolInput :: jsval
  openai_toolOutput :: jsval
  openai_widgetState :: jsval
  openai_callTool :: "(string \<Rightarrow> jsval \<Rightarrow> jsval promise outcome) option"
  openai_sendFollowUpMessage :: "(jsval \<Rightarrow> unit promise outcome) option"
  openai_openExternal :: "(jsval \<Rightarrow> unit outcome) option"
  openai_requestDisplayMode :: "(jsval \<Rightarrow> jsval promise outcome) option"
  openai_setWidgetState :: "(jsval \<Rightarrow> unit promise outcome) option"

text \<open>The keys \<^verbatim>\<open>useOpenAiGlobal\<close> is called with are names of data fields.\<close>

datatype key = KTheme | KDisplayMode | KLocale | KToolInput | KToolOutput | KWidgetState

fun field :: "key \<Rightarrow> openai \<Rightarrow> jsval" where
  "field KTheme h = openai_theme h"
| "field KDisplayMode h = openai_displayMode h"
| "field KLocale h = openai_locale h"
| "field KToolInput h = openai_toolInput h"
| "field KToolOutput h = openai_toolOutput h"
| "field KWidgetState h = openai_widgetState h"

datatype host_call =
    CallTool string jsval
  | SendFollowUpMessage jsval
  | OpenExternal jsval
  | RequestDisplayMode jsval
  | SetWidgetState jsval

text \<open>
  A registered listener is one \<^verbatim>\<open>handleSetGlobal\<close> closure: the number identifies the closure
  (and the \<^verbatim>\<open>onChange\<close> it captured), the key is the \<^verbatim>\<open>key\<close> it captured.  All listeners of
  this module are registered for the event type \<^verbatim>\<open>openai:set_globals\<close>.
\<close>

record window =
  openai :: "openai option"
  listeners :: "(nat \<times> key) list"

text \<open>
  \<open>window = None\<close> is \<^verbatim>\<open>typeof window === "undefined"\<close>.  \<open>nextId\<close> is the identity the next
  closure created by a subscription gets.
\<close>

record env =
  window :: "window option"
  trace :: "host_call list"
  nextId :: nat

definition host :: "env \<Rightarrow> openai option" where
  "host e = (case window e of None \<Rightarrow> None | Some w \<Rightarrow> openai w)"

subsection \<open>useOpenAiGlobal: subscription, event handler, snapshot\<close>

definition SET_GLOBALS_EVENT_TYPE :: string where
  "SET_GLOBALS_EVENT_TYPE = ''openai:set_globals''"

text \<open>
  The \<^verbatim>\<open>detail\<close> of a dispatched event: \<^verbatim>\<open>null\<close> or \<^verbatim>\<open>undefined\<close> (also for a plain \<^verbatim>\<open>Event\<close>),
  or an object whose \<^verbatim>\<open>globals\<close> property is a mapping from field names to values, or is
  missing.
\<close>

datatype detail = NoDetail | Detail "(key \<rightharpoonup> jsval) option"

record event =
  etype :: string
  edetail :: detail

datatype handled = Invalidated | Ignored | TypeError

text \<open>
  \<^verbatim>\<open>customEvent.detail?.globals[key]\<close>: the optional chain stops at a nullish \<^verbatim>\<open>detail\<close>;
  indexing a missing \<^verbatim>\<open>globals\<close> throws.
\<close>

fun globals_value :: "key \<Rightarrow> detail \<Rightarrow> jsval option" where
  "globals_value k NoDetail = Some Undefined"
| "globals_value k (Detail None) = None"
| "globals_value k (Detail (Some g)) = Some (case g k of None \<Rightarrow> Undefined | Some v \<Rightarrow> v)"

definition handleSetGlobal :: "key \<Rightarrow> event \<Rightarrow> handled" where
  "handleSetGlobal k ev =
     (case globals_value k (edetail ev) of
        None \<Rightarrow> TypeError
      | Some v \<Rightarrow> if v \<noteq> Undefined then Invalidated else Ignored)"

text \<open>
  The first argument of \<^verbatim>\<open>useSyncExternalStore\<close>: it creates the handler, registers it when
  there is a window, and returns the function that removes it.  The model returns the
  identity of the handler; \<open>unsubscribe\<close> is the returned function.
\<close>

definition subscribe :: "key \<Rightarrow> env \<Rightarrow> nat \<times> env" where
  "subscribe k e =
     (nextId e,
      e\<lparr>window := map_option (\<lambda>w. w\<lparr>listeners := listeners w @ [(nextId e, k)]\<rparr>) (window e),
        nextId := Suc (nextId e)\<rparr>)"

definition unsubscribe :: "nat \<Rightarrow> env \<Rightarrow> env" where
  "unsubscribe i e =
     e\<lparr>window := map_option (\<lambda>w. w\<lparr>listeners := filter (\<lambda>l. fst l \<noteq> i) (listeners w)\<rparr>) (window e)\<rparr>"

text \<open>The second argument of \<^verbatim>\<open>useSyncExternalStore\<close>, the snapshot.\<close>

definition useOpenAiGlobal :: "key \<Rightarrow> env \<Rightarrow> jsval" where
  "useOpenAiGlobal k e = (case host e of None \<Rightarrow> Undefined | Some h \<Rightarrow> field k h)"

text \<open>
  \<^verbatim>\<open>window.dispatchEvent\<close>: the listeners registered for the event's type run in the order of
  their registration.  The result lists the subscriptions whose \<^verbatim>\<open>onChange\<close> was called.
\<close>

definition registered :: "env \<Rightarrow> (nat \<times> key) list" where
  "registered e = (case window e of None \<Rightarrow> [] | Some w \<Rightarrow> listeners w)"

definition dispatchEvent :: "event \<Rightarrow> env \<Rightarrow> nat list" where
  "dispatchEvent ev e =
     (if etype ev = SET_GLOBALS_EVENT_TYPE
      then map fst (filter (\<lambda>l. handleSetGlobal (snd l) ev = Invalidated) (registered e))
      else [])"

subsection \<open>The four delegating actions\<close>

text \<open>
  Each action tests, when it is called, \<^verbatim>\<open>typeof window === "undefined" || !window.openai?.m\<close>
  and throws \<^verbatim>\<open>new Error("window.openai.m is not available")\<close>; otherwise it calls the host's
  method.  \<^verbatim>\<open>callTool\<close>, \<^verbatim>\<open>sendFollowUpMessage\<close> and \<^verbatim>\<open>requestDisplayMode\<close> are \<^verbatim>\<open>async\<close>:
  what they throw rejects the promise they return.  \<^verbatim>\<open>openExternal\<close> is synchronous.
\<close>

definition HostUnavailable :: "string \<Rightarrow> exn" where
  "HostUnavailable m = Error (''window.openai.'' @ m @ '' is not available'')"

definition called :: "host_call \<Rightarrow> env \<Rightarrow> env" where
  "called c e = e\<lparr>trace := trace e @ [c]\<rparr>"

definition callTool :: "string \<Rightarrow> jsval \<Rightarrow> env \<Rightarrow> jsval promise \<times> env" where
  "callTool name args e =
     (case host e of
        None \<Rightarrow> (Rejected (HostUnavailable ''callTool''), e)
      | Some h \<Rightarrow>
          (case openai_callTool h of
             None \<Rightarrow> (Rejected (HostUnavailable ''callTool''), e)
           | Some m \<Rightarrow> (async_return (m name args), called (CallTool name args) e)))"

definition sendFollowUpMessage :: "string \<Rightarrow> env \<Rightarrow> unit promise \<times> env" where
  "sendFollowUpMessage prompt e =
     (case host e of
        None \<Rightarrow> (Rejected (HostUnavailable ''sendFollowUpMessage''), e)
      | Some h \<Rightarrow>
          (case openai_sendFollowUpMessage h of
             None \<Rightarrow> (Rejected (HostUnavailable ''sendFollowUpMessage''), e)
           | Some m \<Rightarrow>
               (async_return (m (Obj [(''prompt'', Str prompt)])),
                called (SendFollowUpMessage (Obj [(''prompt'', Str prompt)])) e)))"

definition openExternal :: "string \<Rightarrow> env \<Rightarrow> unit outcome \<times> env" where
  "openExternal href e =
     (case host e of
        None \<Rightarrow> (Throw (HostUnavailable ''openExternal''), e)
      | Some h \<Rightarrow>
          (case openai_openExternal h of
             None \<Rightarrow> (Throw (HostUnavailable ''openExternal''), e)
           | Some m \<Rightarrow>
               (m (Obj [(''href'', Str href)]),
                called (OpenExternal (Obj [(''href'', Str href)])) e)))"

definition requestDisplayMode :: "jsval \<Rightarrow> env \<Rightarrow> jsval promise \<times> env" where
  "requestDisplayMode mode e =
     (case host e of
        None \<Rightarrow> (Rejected (HostUnavailable ''requestDisplayMode''), e)
      | Some h \<Rightarrow>
          (case openai_requestDisplayMode h of
             None \<Rightarrow> (Rejected (HostUnavailable ''requestDisplayMode''), e)
           | Some m \<Rightarrow>
               (async_return (m (Obj [(''mode'', mode)])),
                called (RequestDisplayMode (Obj [(''mode'', mode)])) e)))"

subsection \<open>The mirrored state: useState, setState\<close>

text \<open>
  The \<^verbatim>\<open>useState\<close> cell of one mounted component: \<open>localState\<close> is the value the last render
  read, \<open>queue\<close> holds the arguments of the \<^verbatim>\<open>setLocalState\<close> calls made since, oldest first.
  The next render reads the last queued value (\<open>rerender\<close>); \<open>mirror\<close> is the value it will
  read.
\<close>

record widget =
  localState :: jsval
  queue :: "jsval list"

definition setLocalState :: "jsval \<Rightarrow> widget \<Rightarrow> widget" where
  "setLocalState v w = w\<lparr>queue := queue w @ [v]\<rparr>"

definition mirror :: "widget \<Rightarrow> jsval" where
  "mirror w = last (localState w # queue w)"

definition rerender :: "widget \<Rightarrow> widget" where
  "rerender w = \<lparr>localState = mirror w, queue = []\<rparr>"

text \<open>The argument of \<^verbatim>\<open>setState\<close>: a replacement value, or a function of the previous state.\<close>

datatype stateOrUpdater = Value jsval | Updater "jsval \<Rightarrow> jsval"

text \<open>
  The body of the \<^verbatim>\<open>setState\<close> callback.  Its first argument is the \<^verbatim>\<open>localState\<close> of the render
  that created the callback (\<^verbatim>\<open>useCallback(..., [localState])\<close>): the callback reads that
  variable, while the window is read when the callback runs.
\<close>

definition setState_body ::
  "jsval \<Rightarrow> stateOrUpdater \<Rightarrow> env \<Rightarrow> widget \<Rightarrow> unit promise \<times> env \<times> widget" where
  "setState_body captured stateOrUpdater e w =
     (let newState = (case stateOrUpdater of Updater f \<Rightarrow> f captured | Value v \<Rightarrow> v) in
      case host e of
        None \<Rightarrow> (Fulfilled (), e, setLocalState newState w)
      | Some h \<Rightarrow>
          (case openai_setWidgetState h of
             None \<Rightarrow> (Fulfilled (), e, setLocalState newState w)
           | Some m \<Rightarrow>
               (async_return (m newState), called (SetWidgetState newState) e,
                setLocalState newState w)))"

subsection \<open>useWidget and useWidgetState\<close>

text \<open>
  What one render of \<^verbatim>\<open>useWidget(defaultProps)\<close> returns (\<^verbatim>\<open>UseWidgetResult\<close>); the four
  delegating actions capture nothing and are the functions above.  An omitted \<^verbatim>\<open>defaultProps\<close>
  is \<open>Undefined\<close>; the empty object is \<open>Obj []\<close>.
\<close>

record UseWidgetResult =
  props :: jsval
  theme :: jsval
  displayMode :: jsval
  locale' :: jsval
  state :: jsval
  setState :: "stateOrUpdater \<Rightarrow> env \<Rightarrow> widget \<Rightarrow> unit promise \<times> env \<times> widget"
  isAvailable :: bool

definition useWidget :: "jsval \<Rightarrow> env \<Rightarrow> widget \<Rightarrow> UseWidgetResult" where
  "useWidget defaultProps e w =
     \<lparr>props = coalesce (coalesce (useOpenAiGlobal KToolInput e) defaultProps) (Obj []),
      theme = coalesce (useOpenAiGlobal KTheme e) (Str ''light''),
      displayMode = coalesce (useOpenAiGlobal KDisplayMode e) (Str ''inline''),
      locale' = coalesce (useOpenAiGlobal KLocale e) (Str ''en''),
      state = localState w,
      setState = setState_body (localState w),
      isAvailable = (window e \<noteq> None \<and> host e \<noteq> None)\<rparr>"

text \<open>The first render: \<^verbatim>\<open>useState(widgetState ?? null)\<close>.\<close>

definition firstRender :: "env \<Rightarrow> widget" where
  "firstRender e = \<lparr>localState = coalesce (useOpenAiGlobal KWidgetState e) Null, queue = []\<rparr>"

text \<open>The effect of \<^verbatim>\<open>useWidget\<close> with dependencies \<^verbatim>\<open>[widgetState]\<close>, when it runs.\<close>

definition useWidget_effect :: "env \<Rightarrow> widget \<Rightarrow> widget" where
  "useWidget_effect e w =
     (if useOpenAiGlobal KWidgetState e \<noteq> Undefined
      then setLocalState (useOpenAiGlobal KWidgetState e) w else w)"

text \<open>
  The effect of \<^verbatim>\<open>useWidgetState(defaultState)\<close>, with dependencies \<^verbatim>\<open>[]\<close>: it runs once, after
  the first render, with the \<^verbatim>\<open>state\<close> and \<^verbatim>\<open>setState\<close> of that render.  The promise
  \<^verbatim>\<open>setState\<close> returns is dropped.
\<close>

definition useWidgetState_effect ::
  "jsval \<Rightarrow> UseWidgetResult \<Rightarrow> env \<Rightarrow> widget \<Rightarrow> env \<times> widget" where
  "useWidgetState_effect defaultState r e w =
     (if state r = Null \<and> defaultState \<noteq> Undefined \<and> window e \<noteq> None \<and>
         (case host e of None \<Rightarrow> False | Some h \<Rightarrow> openai_setWidgetState h \<noteq> None)
      then snd (setState r (Value defaultState) e w)
      else (e, w))"

text \<open>
  What one render of \<^verbatim>\<open>useWidgetState(defaultState)\<close> returns: the pair of \<^verbatim>\<open>state\<close> and
  \<^verbatim>\<open>setState\<close> of \<^verbatim>\<open>useWidget()\<close>, called without default props.
\<close>

definition useWidgetState ::
  "jsval \<Rightarrow> env \<Rightarrow> widget \<Rightarrow>
     jsval \<times> (stateOrUpdater \<Rightarrow> env \<Rightarrow> widget \<Rightarrow> unit promise \<times> env \<times> widget)" where
  "useWidgetState defaultState e w =
     (state (useWidget Undefined e w), setState (useWidget Undefined e w))"

text \<open>
  Mounting a component that calls \<^verbatim>\<open>useWidgetState(defaultState)\<close>: the first render, then
  the two effects in the order of their declaration, then the render that the queued updates
  cause.  Under \<^verbatim>\<open>React.StrictMode\<close> in a development build (the example application's
  main.tsx mounts its widget so) React 18 runs the mount effects a second time before that
  render, with the closures of the first render; neither effect has a cleanup.  \<open>strict\<close> says
  whether it does.  The result is the environment and the cell after the render.
\<close>

definition mount :: "bool \<Rightarrow> jsval \<Rightarrow> env \<Rightarrow> env \<times> widget" where
  "mount strict defaultState e =
     (let w0 = firstRender e;
          r = useWidget Undefined e w0;
          w1 = useWidget_effect e w0;
          (e2, w2) = useWidgetState_effect defaultState r e w1;
          (e3, w3) = (if strict
                      then useWidgetState_effect defaultState r e2 (useWidget_effect e2 w2)
                      else (e2, w2))
      in (e3, rerender w3))"

subsection \<open>Histories of the listener registry\<close>

text \<open>
  What can happen to the registry after some point: further subscriptions, removals, and
  dispatched events.  \<open>run\<close> collects, in order, every subscription whose \<^verbatim>\<open>onChange\<close> is
  called.
\<close>

datatype action = Subscribe key | Unsubscribe nat | Dispatch event

fun run :: "action list \<Rightarrow> env \<Rightarrow> nat list \<times> env" where
  "run [] e = ([], e)"
| "run (Subscribe k # as) e = run as (snd (subscribe k e))"
| "run (Unsubscribe i # as) e = run as (unsubscribe i e)"
| "run (Dispatch ev # as) e = (dispatchEvent ev e @ fst (run as e), snd (run as e))"

text \<open>
  The handlers on the window are distinct closures, each created by a subscription that has
  already happened.
\<close>

definition wf_env :: "env \<Rightarrow> bool" where
  "wf_env e = (distinct (map fst (registered e)) \<and> list_all (\<lambda>l. fst l < nextId e) (registered e))"

text \<open>
  Two calls in a row of the \<^verbatim>\<open>setState\<close> that one render returned, as in one event handler,
  followed by the render they cause.
\<close>

definition setState_twice ::
  "UseWidgetResult \<Rightarrow> stateOrUpdater \<Rightarrow> stateOrUpdater \<Rightarrow> env \<Rightarrow> widget \<Rightarrow> widget" where
  "setState_twice r a b e w =
     (let (p1, e1, w1) = setState r a e w;
          (p2, e2, w2) = setState r b e1 w1
      in rerender w2)"

text \<open>Concrete environments and host methods for the examples.\<close>

definition no_window :: env where
  "no_window = \<lparr>window = None, trace = [], nextId = 0\<rparr>"

definition bare_host :: openai where
  "bare_host =
     \<lparr>openai_theme = Undefined, openai_displayMode = Undefined, openai_locale = Undefined,
      openai_toolInput = Undefined, openai_toolOutput = Undefined, openai_widgetState = Undefined,
      openai_callTool = None, openai_sendFollowUpMessage = None, openai_openExternal = None,
      openai_requestDisplayMode = None, openai_setWidgetState = None\<rparr>"

definition with_host :: "openai \<Rightarrow> env" where
  "with_host h = \<lparr>window = Some \<lparr>openai = Some h, listeners = []\<rparr>, trace = [], nextId = 0\<rparr>"

definition standalone :: env where
  "standalone = \<lparr>window = Some \<lparr>openai = None, listeners = []\<rparr>, trace = [], nextId = 0\<rparr>"

definition persist_ok :: "jsval \<Rightarrow> unit promise outcome" where
  "persist_ok v = Return (Fulfilled ())"

definition persisting_host :: openai where
  "persisting_host = bare_host\<lparr>openai_setWidgetState := Some persist_ok\<rparr>"

definition tool_ok :: "string \<Rightarrow> jsval \<Rightarrow> jsval promise outcome" where
  "tool_ok name args = Return (Fulfilled (Obj [(''content'', Arr [])]))"

definition tool_host :: openai where
  "tool_host = bare_host\<lparr>openai_callTool := Some tool_ok\<rparr>"

text \<open>
  A host whose tool call rejects, whose follow-up and open-external methods throw, and which
  grants another display mode than the one requested.
\<close>

definition tool_rejects :: "string \<Rightarrow> jsval \<Rightarrow> jsval promise outcome" where
  "tool_rejects name args = Return (Rejected (Thrown (Str ''tool failed'')))"

definition followUp_throws :: "jsval \<Rightarrow> unit promise outcome" where
  "followUp_throws a = Throw (Error ''no conversation'')"

definition open_throws :: "jsval \<Rightarrow> unit outcome" where
  "open_throws a = Throw (Error ''blocked'')"

definition mode_inline :: "jsval \<Rightarrow> jsval promise outcome" where
  "mode_inline a = Return (Fulfilled (Obj [(''mode'', Str ''inline'')]))"

definition failing_host :: openai where
  "failing_host =
     bare_host\<lparr>openai_callTool := Some tool_rejects,
       openai_sendFollowUpMessage := Some followUp_throws,
       openai_openExternal := Some open_throws,
       openai_requestDisplayMode := Some mode_inline\<rparr>"

definition persist_rejects :: "jsval \<Rightarrow> unit promise outcome" where
  "persist_rejects v = Return (Rejected (Error ''quota exceeded''))"

definition rejecting_host :: openai where
  "rejecting_host = bare_host\<lparr>openai_setWidgetState := Some persist_rejects\<rparr>"

definition null_input_host :: openai where
  "null_input_host = bare_host\<lparr>openai_toolInput := Null\<rparr>"

definition paris :: jsval where
  "paris = Obj [(''city'', Str ''Paris''), (''temperature'', Num 22), (''weather'', Str ''sunny'')]"

definition paris_host :: openai where
  "paris_host = bare_host\<lparr>openai_toolInput := paris\<rparr>"

definition unknown_city :: jsval where
  "unknown_city = Obj [(''city'', Str ''Unknown'')]"

definition theme_subscribed :: env where
  "theme_subscribed = snd (subscribe KTheme standalone)"

definition theme_changed :: event where
  "theme_changed =
     \<lparr>etype = SET_GLOBALS_EVENT_TYPE, edetail = Detail (Some [KTheme \<mapsto> Str ''dark''])\<rparr>"

definition theme_undefined :: event where
  "theme_undefined =
     \<lparr>etype = SET_GLOBALS_EVENT_TYPE, edetail = Detail (Some [KTheme \<mapsto> Undefined])\<rparr>"

definition displayMode_changed :: event where
  "displayMode_changed =
     \<lparr>etype = SET_GLOBALS_EVENT_TYPE,
      edetail = Detail (Some [KDisplayMode \<mapsto> Str ''fullscreen''])\<rparr>"

section \<open>Properties\<close>

subsection \<open>Change notifications and subscriptions\<close>

lemma handleSetGlobal_Invalidated:
  "handleSetGlobal k ev = Invalidated \<longleftrightarrow>
     (\<exists>g v. edetail ev = Detail (Some g) \<and> g k = Some v \<and> v \<noteq> Undefined)"
proof (cases "edetail ev")
  case NoDetail
  then show ?thesis by (simp add: handleSetGlobal_def)
next
  case (Detail og)
  then show ?thesis
    by (cases og) (auto simp: handleSetGlobal_def split: option.splits)
qed

lemma dispatchEvent_registered:
  "i \<in> set (dispatchEvent ev e) \<Longrightarrow>
     \<exists>k. (i, k) \<in> set (registered e) \<and> handleSetGlobal k ev = Invalidated"
  by (auto simp: dispatchEvent_def split: if_splits)

lemma distinct_fst_unique:
  "distinct (map fst xs) \<Longrightarrow> (i, a) \<in> set xs \<Longrightarrow> (i, b) \<in> set xs \<Longrightarrow> a = b"
  by (induction xs) (auto simp: rev_image_eqI)

lemma dispatchEvent_own_key:
  assumes "wf_env e" and "(i, k) \<in> set (registered e)" and "i \<in> set (dispatchEvent ev e)"
  shows "handleSetGlobal k ev = Invalidated"
proof -
  from assms(3) obtain k' where k': "(i, k') \<in> set (registered e)"
    and inv: "handleSetGlobal k' ev = Invalidated"
    using dispatchEvent_registered by blast
  from assms(1) have "distinct (map fst (registered e))" by (simp add: wf_env_def)
  with assms(2) k' have "k' = k" by (rule_tac distinct_fst_unique)
  with inv show ?thesis by simp
qed

text \<open>The registry invariant holds before any subscription and is kept by every step.\<close>

lemma wf_no_listeners: "registered e = [] \<Longrightarrow> wf_env e"
  by (simp add: wf_env_def)

lemma wf_subscribe: "wf_env e \<Longrightarrow> wf_env (snd (subscribe k e))"
  by (auto simp: wf_env_def subscribe_def registered_def list_all_iff split: option.splits)

lemma wf_unsubscribe: "wf_env e \<Longrightarrow> wf_env (unsubscribe i e)"
  by (auto simp: wf_env_def unsubscribe_def registered_def list_all_iff distinct_map_filter
      split: option.splits)

lemma wf_run: "wf_env e \<Longrightarrow> wf_env (snd (run as e))"
  by (induction as e rule: run.induct) (simp_all add: wf_subscribe wf_unsubscribe)

lemma wf_theme_subscribed: "wf_env theme_subscribed"
  unfolding theme_subscribed_def
  by (rule wf_subscribe) (simp add: wf_no_listeners registered_def standalone_def)

lemma registered_theme_subscribed: "registered theme_subscribed = [(0, KTheme)]"
  by (simp add: theme_subscribed_def subscribe_def standalone_def registered_def)

text \<open>
  C6.  A subscription for a field is registered on the window.  When an event is dispatched
  whose \<^verbatim>\<open>globals\<close> mapping does not contain that field, the subscription's \<^verbatim>\<open>onChange\<close> is
  not called; and every subscription whose \<^verbatim>\<open>onChange\<close> is called is one for a field that
  the mapping contains.
\<close>

theorem notification_filtered_by_field:
  assumes "wf_env e" and "(i, k) \<in> set (registered e)"
    and "edetail ev = Detail (Some g)" and "k \<notin> dom g"
  shows "i \<notin> set (dispatchEvent ev e)
       \<and> (\<forall>l \<in> set (registered e). fst l \<in> set (dispatchEvent ev e) \<longrightarrow> snd l \<in> dom g)"
proof
  show "i \<notin> set (dispatchEvent ev e)"
  proof
    assume "i \<in> set (dispatchEvent ev e)"
    with assms(1,2) have "handleSetGlobal k ev = Invalidated" by (rule dispatchEvent_own_key)
    with assms(3,4) show False by (auto simp: handleSetGlobal_Invalidated)
  qed
  show "\<forall>l \<in> set (registered e). fst l \<in> set (dispatchEvent ev e) \<longrightarrow> snd l \<in> dom g"
  proof (intro ballI impI)
    fix l
    assume l: "l \<in> set (registered e)" and inv: "fst l \<in> set (dispatchEvent ev e)"
    from l have "(fst l, snd l) \<in> set (registered e)" by simp
    with assms(1) have "handleSetGlobal (snd l) ev = Invalidated"
      using inv by (rule dispatchEvent_own_key)
    with assms(3) show "snd l \<in> dom g" by (auto simp: handleSetGlobal_Invalidated)
  qed
qed

theorem notification_filtered_by_field_witness:
  "wf_env theme_subscribed \<and> (0, KTheme) \<in> set (registered theme_subscribed)
   \<and> edetail displayMode_changed = Detail (Some [KDisplayMode \<mapsto> Str ''fullscreen''])
   \<and> KTheme \<notin> dom [KDisplayMode \<mapsto> Str ''fullscreen'']
   \<and> 0 \<notin> set (dispatchEvent displayMode_changed theme_subscribed)
   \<and> dispatchEvent theme_changed theme_subscribed = [0]"
proof -
  have a: "(0, KTheme) \<in> set (registered theme_subscribed)"
    by (simp add: registered_theme_subscribed)
  have b: "edetail displayMode_changed = Detail (Some [KDisplayMode \<mapsto> Str ''fullscreen''])"
    by (simp add: displayMode_changed_def)
  have c: "KTheme \<notin> dom [KDisplayMode \<mapsto> Str ''fullscreen'']" by simp
  have d: "dispatchEvent theme_changed theme_subscribed = [0]"
    by (simp add: dispatchEvent_def registered_theme_subscribed theme_changed_def
        handleSetGlobal_def)
  from notification_filtered_by_field [OF wf_theme_subscribed a b c] a b c d
  show ?thesis by (simp add: wf_theme_subscribed)
qed

text \<open>
  C10.  When the \<^verbatim>\<open>globals\<close> mapping of a dispatched event omits the subscribed field or maps
  it to \<^verbatim>\<open>undefined\<close>, the subscription's \<^verbatim>\<open>onChange\<close> is not called; whenever it is called,
  the event carries a mapping with a value other than \<^verbatim>\<open>undefined\<close> for the subscribed field.
\<close>

theorem notification_needs_defined_value:
  assumes "wf_env e" and "(i, k) \<in> set (registered e)"
  shows "(edetail ev = Detail (Some g) \<longrightarrow> (g k = None \<or> g k = Some Undefined) \<longrightarrow>
            i \<notin> set (dispatchEvent ev e))
       \<and> (i \<in> set (dispatchEvent ev e) \<longrightarrow>
            (\<exists>g' v. edetail ev = Detail (Some g') \<and> g' k = Some v \<and> v \<noteq> Undefined))"
proof (intro conjI impI)
  assume d: "edetail ev = Detail (Some g)" and u: "g k = None \<or> g k = Some Undefined"
  show "i \<notin> set (dispatchEvent ev e)"
  proof
    assume "i \<in> set (dispatchEvent ev e)"
    with assms have "handleSetGlobal k ev = Invalidated" by (rule dispatchEvent_own_key)
    with d u show False by (auto simp: handleSetGlobal_Invalidated)
  qed
next
  assume "i \<in> set (dispatchEvent ev e)"
  with assms have "handleSetGlobal k ev = Invalidated" by (rule dispatchEvent_own_key)
  then show "\<exists>g' v. edetail ev = Detail (Some g') \<and> g' k = Some v \<and> v \<noteq> Undefined"
    by (simp add: handleSetGlobal_Invalidated)
qed

theorem notification_needs_defined_value_witness:
  "wf_env theme_subscribed \<and> (0, KTheme) \<in> set (registered theme_subscribed)
   \<and> edetail theme_undefined = Detail (Some [KTheme \<mapsto> Undefined])
   \<and> 0 \<notin> set (dispatchEvent theme_undefined theme_subscribed)
   \<and> 0 \<in> set (dispatchEvent theme_changed theme_subscribed)
   \<and> (\<exists>g' v. edetail theme_changed = Detail (Some g') \<and> g' KTheme = Some v \<and> v \<noteq> Undefined)"
proof -
  have a: "(0, KTheme) \<in> set (registered theme_subscribed)"
    by (simp add: registered_theme_subscribed)
  have b: "edetail theme_undefined = Detail (Some [KTheme \<mapsto> Undefined])"
    by (simp add: theme_undefined_def)
  have c: "0 \<in> set (dispatchEvent theme_changed theme_subscribed)"
    by (simp add: dispatchEvent_def registered_theme_subscribed theme_changed_def
        handleSetGlobal_def)
  from notification_needs_defined_value
         [OF wf_theme_subscribed a, of theme_undefined "[KTheme \<mapsto> Undefined]"]
       notification_needs_defined_value
         [OF wf_theme_subscribed a, of theme_changed "[KTheme \<mapsto> Undefined]"]
       a b c
  show ?thesis by (simp add: wf_theme_subscribed)
qed

subsection \<open>Unsubscription\<close>

lemma ids_subscribe:
  "fst ` set (registered (snd (subscribe k e))) \<subseteq> insert (nextId e) (fst ` set (registered e))"
  by (auto simp: subscribe_def registered_def split: option.splits)

lemma ids_unsubscribe:
  "fst ` set (registered (unsubscribe i e)) = fst ` set (registered e) - {i}"
  by (auto simp: unsubscribe_def registered_def split: option.splits)

lemma nextId_subscribe: "nextId (snd (subscribe k e)) = Suc (nextId e)"
  by (simp add: subscribe_def)

lemma nextId_unsubscribe: "nextId (unsubscribe i e) = nextId e"
  by (simp add: unsubscribe_def)

lemma dispatchEvent_ids: "set (dispatchEvent ev e) \<subseteq> fst ` set (registered e)"
  by (auto simp: dispatchEvent_def)

lemma nextId_run: "nextId e \<le> nextId (snd (run as e))"
proof (induction as e rule: run.induct)
  case (2 k as e)
  then show ?case by (simp add: nextId_subscribe)
next
  case (3 i as e)
  then show ?case by (simp add: nextId_unsubscribe)
qed simp_all

text \<open>
  A handler that is not on the window, and whose identity has already been given out, is
  never called and never comes back, whatever happens afterwards.
\<close>

lemma removed_stays_removed:
  "i < nextId e \<Longrightarrow> i \<notin> fst ` set (registered e) \<Longrightarrow>
     i \<notin> set (fst (run as e)) \<and> i \<notin> fst ` set (registered (snd (run as e)))"
proof (induction as e rule: run.induct)
  case (1 e)
  then show ?case by simp
next
  case (2 k as e)
  have "i < nextId (snd (subscribe k e))"
    using "2.prems"(1) by (simp add: nextId_subscribe)
  moreover have "i \<notin> fst ` set (registered (snd (subscribe k e)))"
    using "2.prems" ids_subscribe [of k e] by auto
  ultimately show ?case using "2.IH" by simp
next
  case (3 j as e)
  have "i < nextId (unsubscribe j e)"
    using "3.prems"(1) by (simp add: nextId_unsubscribe)
  moreover have "i \<notin> fst ` set (registered (unsubscribe j e))"
    using "3.prems"(2) by (simp add: ids_unsubscribe)
  ultimately show ?case using "3.IH" by simp
next
  case (4 ev as e)
  have "i \<notin> set (dispatchEvent ev e)"
    using "4.prems"(2) dispatchEvent_ids [of ev e] by auto
  with "4.IH" "4.prems" show ?case by simp
qed

text \<open>
  C7.  A subscription is created; anything may happen (\<open>earlier\<close>); its unsubscription
  function runs.  From then on its handler is not registered on the window, and in every
  continuation (\<open>later\<close>: further subscriptions, removals and dispatched events of any
  content) its \<^verbatim>\<open>onChange\<close> is never called and its handler is never registered again.
\<close>

theorem unsubscribed_never_invoked:
  assumes "subscribe k e0 = (i, e1)"
  shows "i \<notin> fst ` set (registered (unsubscribe i (snd (run earlier e1))))
       \<and> i \<notin> set (fst (run later (unsubscribe i (snd (run earlier e1)))))
       \<and> i \<notin> fst ` set (registered (snd (run later (unsubscribe i (snd (run earlier e1))))))"
proof -
  let ?e = "unsubscribe i (snd (run earlier e1))"
  from assms have i: "i = nextId e0" and e1: "e1 = snd (subscribe k e0)"
    by (auto simp: subscribe_def)
  have "i < nextId e1" by (simp add: i e1 nextId_subscribe)
  also have "\<dots> \<le> nextId (snd (run earlier e1))" by (rule nextId_run)
  finally have lt: "i < nextId ?e" by (simp add: nextId_unsubscribe)
  have gone: "i \<notin> fst ` set (registered ?e)" by (simp add: ids_unsubscribe)
  from removed_stays_removed [OF lt gone, of later] gone show ?thesis by simp
qed

theorem unsubscribed_never_invoked_witness:
  "subscribe KTheme standalone = (0, theme_subscribed)
   \<and> fst (run [Dispatch theme_changed] theme_subscribed) = [0]
   \<and> 0 \<notin> fst ` set (registered (unsubscribe 0 (snd (run [Dispatch theme_changed] theme_subscribed))))
   \<and> 0 \<notin> set (fst (run [Dispatch theme_changed, Subscribe KTheme, Dispatch theme_changed]
                  (unsubscribe 0 (snd (run [Dispatch theme_changed] theme_subscribed)))))
   \<and> fst (run [Dispatch theme_changed, Subscribe KTheme, Dispatch theme_changed]
            (unsubscribe 0 (snd (run [Dispatch theme_changed] theme_subscribed)))) = [1]"
proof -
  have a: "subscribe KTheme standalone = (0, theme_subscribed)"
    by (simp add: theme_subscribed_def subscribe_def standalone_def)
  have b: "fst (run [Dispatch theme_changed] theme_subscribed) = [0]"
    by (simp add: dispatchEvent_def registered_theme_subscribed theme_changed_def
        handleSetGlobal_def)
  have c: "fst (run [Dispatch theme_changed, Subscribe KTheme, Dispatch theme_changed]
            (unsubscribe 0 (snd (run [Dispatch theme_changed] theme_subscribed)))) = [1]"
    by (simp add: dispatchEvent_def theme_subscribed_def subscribe_def unsubscribe_def
        standalone_def registered_def theme_changed_def handleSetGlobal_def)
  from unsubscribed_never_invoked
         [OF a, of "[Dispatch theme_changed]"
            "[Dispatch theme_changed, Subscribe KTheme, Dispatch theme_changed]"] a b c
  show ?thesis by simp
qed

subsection \<open>The delegating actions\<close>

lemma callTool_unavailable:
  "host e = None \<or> (\<exists>h. host e = Some h \<and> openai_callTool h = None) \<Longrightarrow>
     callTool name args e = (Rejected (HostUnavailable ''callTool''), e)"
  by (auto simp: callTool_def)

lemma callTool_delegates:
  "host e = Some h \<Longrightarrow> openai_callTool h = Some m \<Longrightarrow>
     callTool name args e = (async_return (m name args), called (CallTool name args) e)"
  by (simp add: callTool_def)

lemma sendFollowUpMessage_unavailable:
  "host e = None \<or> (\<exists>h. host e = Some h \<and> openai_sendFollowUpMessage h = None) \<Longrightarrow>
     sendFollowUpMessage prompt e = (Rejected (HostUnavailable ''sendFollowUpMessage''), e)"
  by (auto simp: sendFollowUpMessage_def)

lemma sendFollowUpMessage_delegates:
  "host e = Some h \<Longrightarrow> openai_sendFollowUpMessage h = Some m \<Longrightarrow>
     sendFollowUpMessage prompt e =
       (async_return (m (Obj [(''prompt'', Str prompt)])),
        called (SendFollowUpMessage (Obj [(''prompt'', Str prompt)])) e)"
  by (simp add: sendFollowUpMessage_def)

lemma openExternal_unavailable:
  "host e = None \<or> (\<exists>h. host e = Some h \<and> openai_openExternal h = None) \<Longrightarrow>
     openExternal href e = (Throw (HostUnavailable ''openExternal''), e)"
  by (auto simp: openExternal_def)

lemma openExternal_delegates:
  "host e = Some h \<Longrightarrow> openai_openExternal h = Some m \<Longrightarrow>
     openExternal href e =
       (m (Obj [(''href'', Str href)]), called (OpenExternal (Obj [(''href'', Str href)])) e)"
  by (simp add: openExternal_def)

lemma requestDisplayMode_unavailable:
  "host e = None \<or> (\<exists>h. host e = Some h \<and> openai_requestDisplayMode h = None) \<Longrightarrow>
     requestDisplayMode mode e = (Rejected (HostUnavailable ''requestDisplayMode''), e)"
  by (auto simp: requestDisplayMode_def)

lemma requestDisplayMode_delegates:
  "host e = Some h \<Longrightarrow> openai_requestDisplayMode h = Some m \<Longrightarrow>
     requestDisplayMode mode e =
       (async_return (m (Obj [(''mode'', mode)])),
        called (RequestDisplayMode (Obj [(''mode'', mode)])) e)"
  by (simp add: requestDisplayMode_def)

text \<open>
  C3.  For each of \<^verbatim>\<open>callTool\<close>, \<^verbatim>\<open>sendFollowUpMessage\<close>, \<^verbatim>\<open>openExternal\<close> and
  \<^verbatim>\<open>requestDisplayMode\<close>: when the host global or the host's method is absent at the call, the
  action fails with the error \<^verbatim>\<open>window.openai.<method> is not available\<close> and the environment
  is unchanged, so no host method was called (the actions have no access to the hook's state).
  The three \<^verbatim>\<open>async\<close> actions deliver the error as the rejection of the promise they return,
  \<^verbatim>\<open>openExternal\<close> throws it.  When the method is present it is called once, with the
  arguments the source builds.  The promise of an \<^verbatim>\<open>async\<close> action is then the very promise the
  host returned, whether that is fulfilled, rejected or never settles, and is rejected with
  the very value the host's method threw; \<^verbatim>\<open>openExternal\<close> returns or throws as the host's
  method does.
\<close>

theorem actions_unavailable_or_delegate:
  "(host e = None \<or> (\<exists>h. host e = Some h \<and> openai_callTool h = None) \<longrightarrow>
      callTool name args e = (Rejected (HostUnavailable ''callTool''), e))
 \<and> (host e = None \<or> (\<exists>h. host e = Some h \<and> openai_sendFollowUpMessage h = None) \<longrightarrow>
      sendFollowUpMessage prompt e = (Rejected (HostUnavailable ''sendFollowUpMessage''), e))
 \<and> (host e = None \<or> (\<exists>h. host e = Some h \<and> openai_openExternal h = None) \<longrightarrow>
      openExternal href e = (Throw (HostUnavailable ''openExternal''), e))
 \<and> (host e = None \<or> (\<exists>h. host e = Some h \<and> openai_requestDisplayMode h = None) \<longrightarrow>
      requestDisplayMode mode e = (Rejected (HostUnavailable ''requestDisplayMode''), e))
 \<and> (\<forall>h m. host e = Some h \<and> openai_callTool h = Some m \<longrightarrow>
      snd (callTool name args e) = e\<lparr>trace := trace e @ [CallTool name args]\<rparr>
      \<and> (\<forall>p. m name args = Return p \<longrightarrow> fst (callTool name args e) = p)
      \<and> (\<forall>x. m name args = Throw x \<longrightarrow> fst (callTool name args e) = Rejected x))
 \<and> (\<forall>h m. host e = Some h \<and> openai_sendFollowUpMessage h = Some m \<longrightarrow>
      snd (sendFollowUpMessage prompt e) =
        e\<lparr>trace := trace e @ [SendFollowUpMessage (Obj [(''prompt'', Str prompt)])]\<rparr>
      \<and> (\<forall>p. m (Obj [(''prompt'', Str prompt)]) = Return p \<longrightarrow>
            fst (sendFollowUpMessage prompt e) = p)
      \<and> (\<forall>x. m (Obj [(''prompt'', Str prompt)]) = Throw x \<longrightarrow>
            fst (sendFollowUpMessage prompt e) = Rejected x))
 \<and> (\<forall>h m. host e = Some h \<and> openai_openExternal h = Some m \<longrightarrow>
      openExternal href e =
        (m (Obj [(''href'', Str href)]),
         e\<lparr>trace := trace e @ [OpenExternal (Obj [(''href'', Str href)])]\<rparr>))
 \<and> (\<forall>h m. host e = Some h \<and> openai_requestDisplayMode h = Some m \<longrightarrow>
      snd (requestDisplayMode mode e) =
        e\<lparr>trace := trace e @ [RequestDisplayMode (Obj [(''mode'', mode)])]\<rparr>
      \<and> (\<forall>p. m (Obj [(''mode'', mode)]) = Return p \<longrightarrow> fst (requestDisplayMode mode e) = p)
      \<and> (\<forall>x. m (Obj [(''mode'', mode)]) = Throw x \<longrightarrow>
            fst (requestDisplayMode mode e) = Rejected x))"
proof (intro conjI)
  show "host e = None \<or> (\<exists>h. host e = Some h \<and> openai_callTool h = None) \<longrightarrow>
      callTool name args e = (Rejected (HostUnavailable ''callTool''), e)"
    by (simp add: callTool_unavailable)
  show "host e = None \<or> (\<exists>h. host e = Some h \<and> openai_sendFollowUpMessage h = None) \<longrightarrow>
      sendFollowUpMessage prompt e = (Rejected (HostUnavailable ''sendFollowUpMessage''), e)"
    by (simp add: sendFollowUpMessage_unavailable)
  show "host e = None \<or> (\<exists>h. host e = Some h \<and> openai_openExternal h = None) \<longrightarrow>
      openExternal href e = (Throw (HostUnavailable ''openExternal''), e)"
    by (simp add: openExternal_unavailable)
  show "host e = None \<or> (\<exists>h. host e = Some h \<and> openai_requestDisplayMode h = None) \<longrightarrow>
      requestDisplayMode mode e = (Rejected (HostUnavailable ''requestDisplayMode''), e)"
    by (simp add: requestDisplayMode_unavailable)
  show "\<forall>h m. host e = Some h \<and> openai_callTool h = Some m \<longrightarrow>
      snd (callTool name args e) = e\<lparr>trace := trace e @ [CallTool name args]\<rparr>
      \<and> (\<forall>p. m name args = Return p \<longrightarrow> fst (callTool name args e) = p)
      \<and> (\<forall>x. m name args = Throw x \<longrightarrow> fst (callTool name args e) = Rejected x)"
    by (simp add: callTool_delegates called_def)
  show "\<forall>h m. host e = Some h \<and> openai_sendFollowUpMessage h = Some m \<longrightarrow>
      snd (sendFollowUpMessage prompt e) =
        e\<lparr>trace := trace e @ [SendFollowUpMessage (Obj [(''prompt'', Str prompt)])]\<rparr>
      \<and> (\<forall>p. m (Obj [(''prompt'', Str prompt)]) = Return p \<longrightarrow>
            fst (sendFollowUpMessage prompt e) = p)
      \<and> (\<forall>x. m (Obj [(''prompt'', Str prompt)]) = Throw x \<longrightarrow>
            fst (sendFollowUpMessage prompt e) = Rejected x)"
    by (simp add: sendFollowUpMessage_delegates called_def)
  show "\<forall>h m. host e = Some h \<and> openai_openExternal h = Some m \<longrightarrow>
      openExternal href e =
        (m (Obj [(''href'', Str href)]),
         e\<lparr>trace := trace e @ [OpenExternal (Obj [(''href'', Str href)])]\<rparr>)"
    by (simp add: openExternal_delegates called_def)
  show "\<forall>h m. host e = Some h \<and> openai_requestDisplayMode h = Some m \<longrightarrow>
      snd (requestDisplayMode mode e) =
        e\<lparr>trace := trace e @ [RequestDisplayMode (Obj [(''mode'', mode)])]\<rparr>
      \<and> (\<forall>p. m (Obj [(''mode'', mode)]) = Return p \<longrightarrow> fst (requestDisplayMode mode e) = p)
      \<and> (\<forall>x. m (Obj [(''mode'', mode)]) = Throw x \<longrightarrow>
            fst (requestDisplayMode mode e) = Rejected x)"
    by (simp add: requestDisplayMode_delegates called_def)
qed

lemma host_standalone: "host standalone = None"
  by (simp add: host_def standalone_def)

lemma host_with_host: "host (with_host h) = Some h"
  by (simp add: host_def with_host_def)

theorem actions_unavailable_or_delegate_witness:
  "host standalone = None
   \<and> callTool ''get-forecast'' (Obj []) standalone =
       (Rejected (HostUnavailable ''callTool''), standalone)
   \<and> sendFollowUpMessage ''more'' standalone =
       (Rejected (HostUnavailable ''sendFollowUpMessage''), standalone)
   \<and> openExternal ''https://example.com'' standalone =
       (Throw (HostUnavailable ''openExternal''), standalone)
   \<and> requestDisplayMode (Str ''fullscreen'') standalone =
       (Rejected (HostUnavailable ''requestDisplayMode''), standalone)
   \<and> host (with_host tool_host) = Some tool_host \<and> openai_callTool tool_host = Some tool_ok
   \<and> openai_openExternal tool_host = None
   \<and> callTool ''get-forecast'' (Obj []) (with_host tool_host) =
       (Fulfilled (Obj [(''content'', Arr [])]),
        (with_host tool_host)\<lparr>trace := [CallTool ''get-forecast'' (Obj [])]\<rparr>)
   \<and> openExternal ''https://example.com'' (with_host tool_host) =
       (Throw (HostUnavailable ''openExternal''), with_host tool_host)
   \<and> host (with_host failing_host) = Some failing_host
   \<and> callTool ''get-forecast'' (Obj []) (with_host failing_host) =
       (Rejected (Thrown (Str ''tool failed'')),
        (with_host failing_host)\<lparr>trace := [CallTool ''get-forecast'' (Obj [])]\<rparr>)
   \<and> sendFollowUpMessage ''more'' (with_host failing_host) =
       (Rejected (Error ''no conversation''),
        (with_host failing_host)\<lparr>trace := [SendFollowUpMessage (Obj [(''prompt'', Str ''more'')])]\<rparr>)
   \<and> openExternal ''https://example.com'' (with_host failing_host) =
       (Throw (Error ''blocked''),
        (with_host failing_host)
          \<lparr>trace := [OpenExternal (Obj [(''href'', Str ''https://example.com'')])]\<rparr>)
   \<and> requestDisplayMode (Str ''fullscreen'') (with_host failing_host) =
       (Fulfilled (Obj [(''mode'', Str ''inline'')]),
        (with_host failing_host)
          \<lparr>trace := [RequestDisplayMode (Obj [(''mode'', Str ''fullscreen'')])]\<rparr>)"
proof -
  have a: "openai_callTool tool_host = Some tool_ok" "openai_openExternal tool_host = None"
    by (simp_all add: tool_host_def bare_host_def)
  have b: "openai_callTool failing_host = Some tool_rejects"
    "openai_sendFollowUpMessage failing_host = Some followUp_throws"
    "openai_openExternal failing_host = Some open_throws"
    "openai_requestDisplayMode failing_host = Some mode_inline"
    by (simp_all add: failing_host_def)
  have t: "trace (with_host h) = []" for h by (simp add: with_host_def)
  from actions_unavailable_or_delegate
         [of standalone "''get-forecast''" "Obj []" "''more''" "''https://example.com''"
            "Str ''fullscreen''"]
       actions_unavailable_or_delegate
         [of "with_host tool_host" "''get-forecast''" "Obj []" "''more''"
            "''https://example.com''" "Str ''fullscreen''"]
       actions_unavailable_or_delegate
         [of "with_host failing_host" "''get-forecast''" "Obj []" "''more''"
            "''https://example.com''" "Str ''fullscreen''"]
       a b t
  show ?thesis
    by (simp add: host_standalone host_with_host tool_ok_def tool_rejects_def
        followUp_throws_def open_throws_def mode_inline_def prod_eq_iff)
qed

subsection \<open>The projections\<close>

lemma snapshot_no_host: "host e = None \<Longrightarrow> useOpenAiGlobal k e = Undefined"
  by (simp add: useOpenAiGlobal_def)

lemma snapshot_host: "host e = Some h \<Longrightarrow> useOpenAiGlobal k e = field k h"
  by (simp add: useOpenAiGlobal_def)

text \<open>
  C4, as amended.  \<^verbatim>\<open>props\<close> is the host's \<^verbatim>\<open>toolInput\<close> itself (not merged with the default)
  whenever that is neither \<^verbatim>\<open>undefined\<close> nor \<^verbatim>\<open>null\<close>; otherwise the caller's default when that
  is neither \<^verbatim>\<open>undefined\<close> nor \<^verbatim>\<open>null\<close>; otherwise the empty object.  The projection is a
  function of the snapshot and the default alone: a render returns a value and changes
  neither the environment nor the hook's cell.
\<close>

theorem props_projection:
  assumes "toolInput = useOpenAiGlobal KToolInput e"
  shows "(toolInput \<noteq> Undefined \<and> toolInput \<noteq> Null \<longrightarrow> props (useWidget d e w) = toolInput)
       \<and> ((toolInput = Undefined \<or> toolInput = Null) \<and> d \<noteq> Undefined \<and> d \<noteq> Null \<longrightarrow>
            props (useWidget d e w) = d)
       \<and> ((toolInput = Undefined \<or> toolInput = Null) \<and> (d = Undefined \<or> d = Null) \<longrightarrow>
            props (useWidget d e w) = Obj [])"
  using assms by (auto simp: useWidget_def coalesce_def)

theorem props_projection_witness:
  "useOpenAiGlobal KToolInput (with_host paris_host) = paris
   \<and> props (useWidget unknown_city (with_host paris_host) (firstRender (with_host paris_host)))
       = paris
   \<and> useOpenAiGlobal KToolInput standalone = Undefined
   \<and> props (useWidget unknown_city standalone (firstRender standalone)) = unknown_city
   \<and> props (useWidget Undefined standalone (firstRender standalone)) = Obj []"
proof -
  have a: "useOpenAiGlobal KToolInput (with_host paris_host) = paris"
    by (simp add: snapshot_host [OF host_with_host] paris_host_def bare_host_def)
  have b: "useOpenAiGlobal KToolInput standalone = Undefined"
    by (simp add: snapshot_no_host host_standalone)
  have c: "paris \<noteq> Undefined" "paris \<noteq> Null" "unknown_city \<noteq> Undefined" "unknown_city \<noteq> Null"
    by (simp_all add: paris_def unknown_city_def)
  from props_projection [OF a [symmetric], of unknown_city "firstRender (with_host paris_host)"]
       props_projection [OF b [symmetric], of unknown_city "firstRender standalone"]
       props_projection [OF b [symmetric], of Undefined "firstRender standalone"]
       a b c
  show ?thesis by simp
qed

text \<open>
  C4, as stated, fails where the host's \<^verbatim>\<open>toolInput\<close> is \<^verbatim>\<open>null\<close>: the field is there, and
  \<^verbatim>\<open>props\<close> is the caller's default.
\<close>

theorem props_null_toolInput:
  "host (with_host null_input_host) = Some null_input_host
   \<and> openai_toolInput null_input_host \<noteq> Undefined
   \<and> props (useWidget unknown_city (with_host null_input_host)
              (firstRender (with_host null_input_host)))
       \<noteq> openai_toolInput null_input_host
   \<and> props (useWidget unknown_city (with_host null_input_host)
              (firstRender (with_host null_input_host)))
       = unknown_city"
  by (simp add: host_with_host useWidget_def useOpenAiGlobal_def coalesce_def
      null_input_host_def bare_host_def unknown_city_def)

text \<open>
  C5.  \<^verbatim>\<open>isAvailable\<close> is false exactly when the host global is absent when the hook renders.
  When the host global is absent, or the host leaves the field out, \<^verbatim>\<open>theme\<close> is \<^verbatim>\<open>"light"\<close>,
  \<^verbatim>\<open>displayMode\<close> is \<^verbatim>\<open>"inline"\<close> and \<^verbatim>\<open>locale\<close> is \<^verbatim>\<open>"en"\<close>.
\<close>

theorem availability_and_fallbacks:
  "(\<not> isAvailable (useWidget d e w) \<longleftrightarrow> host e = None)
 \<and> (host e = None \<or> (\<exists>h. host e = Some h \<and> openai_theme h = Undefined) \<longrightarrow>
      theme (useWidget d e w) = Str ''light'')
 \<and> (host e = None \<or> (\<exists>h. host e = Some h \<and> openai_displayMode h = Undefined) \<longrightarrow>
      displayMode (useWidget d e w) = Str ''inline'')
 \<and> (host e = None \<or> (\<exists>h. host e = Some h \<and> openai_locale h = Undefined) \<longrightarrow>
      locale' (useWidget d e w) = Str ''en'')"
  by (auto simp: useWidget_def coalesce_def host_def useOpenAiGlobal_def split: option.splits)

theorem availability_and_fallbacks_witness:
  "host standalone = None
   \<and> \<not> isAvailable (useWidget unknown_city standalone (firstRender standalone))
   \<and> theme (useWidget unknown_city standalone (firstRender standalone)) = Str ''light''
   \<and> displayMode (useWidget unknown_city standalone (firstRender standalone)) = Str ''inline''
   \<and> locale' (useWidget unknown_city standalone (firstRender standalone)) = Str ''en''
   \<and> host (with_host paris_host) = Some paris_host \<and> openai_theme paris_host = Undefined
   \<and> isAvailable (useWidget unknown_city (with_host paris_host) (firstRender standalone))
   \<and> theme (useWidget unknown_city (with_host paris_host) (firstRender standalone))
       = Str ''light''"
proof -
  have a: "openai_theme paris_host = Undefined"
    by (simp add: paris_host_def bare_host_def)
  from availability_and_fallbacks [of unknown_city standalone "firstRender standalone"]
       availability_and_fallbacks [of unknown_city "with_host paris_host" "firstRender standalone"]
       a
  show ?thesis by (simp add: host_standalone host_with_host)
qed

subsection \<open>setState\<close>

lemma mirror_setLocalState: "mirror (setLocalState v w) = v"
  by (simp add: mirror_def setLocalState_def)

lemma rerender_setLocalState: "rerender (setLocalState v w) = \<lparr>localState = v, queue = []\<rparr>"
  by (simp add: rerender_def mirror_setLocalState)

lemma setState_useWidget: "setState (useWidget d e0 w0) = setState_body (localState w0)"
  by (simp add: useWidget_def)

lemma state_useWidget: "state (useWidget d e0 w0) = localState w0"
  by (simp add: useWidget_def)

lemma setState_body_unavailable:
  assumes "host e = None \<or> (\<exists>h. host e = Some h \<and> openai_setWidgetState h = None)"
  shows "setState_body c a e w =
           (Fulfilled (), e, setLocalState (case a of Updater f \<Rightarrow> f c | Value v \<Rightarrow> v) w)"
  using assms by (auto simp: setState_body_def)

lemma setState_body_available:
  assumes "host e = Some h" and "openai_setWidgetState h = Some m"
  shows "setState_body c a e w =
           (async_return (m (case a of Updater f \<Rightarrow> f c | Value v \<Rightarrow> v)),
            called (SetWidgetState (case a of Updater f \<Rightarrow> f c | Value v \<Rightarrow> v)) e,
            setLocalState (case a of Updater f \<Rightarrow> f c | Value v \<Rightarrow> v) w)"
  using assms by (simp add: setState_body_def Let_def)

text \<open>
  What the \<^verbatim>\<open>setState\<close> of a render \<open>r\<close> does when it is called with \<open>a\<close>, at any later
  moment (environment \<open>e\<close>, cell \<open>w\<close>): the new value is \<open>a\<close>, or the updater applied to the
  state that \<open>r\<close> returned; the local update is queued; and the host's \<^verbatim>\<open>setWidgetState\<close>, if
  there is one, is called once with the new value, its promise or its exception becoming
  the outcome of \<^verbatim>\<open>setState\<close>.
\<close>

lemma setState_of_render:
  assumes "r = useWidget d e0 w0"
    and "newState = (case a of Updater f \<Rightarrow> f (state r) | Value v \<Rightarrow> v)"
  shows "(\<forall>h m. host e = Some h \<and> openai_setWidgetState h = Some m \<longrightarrow>
            snd (setState r a e w) =
              (e\<lparr>trace := trace e @ [SetWidgetState newState]\<rparr>, setLocalState newState w)
            \<and> (\<forall>p. m newState = Return p \<longrightarrow> fst (setState r a e w) = p)
            \<and> (\<forall>x. m newState = Throw x \<longrightarrow> fst (setState r a e w) = Rejected x))
       \<and> (host e = None \<or> (\<exists>h. host e = Some h \<and> openai_setWidgetState h = None) \<longrightarrow>
            setState r a e w = (Fulfilled (), e, setLocalState newState w))
       \<and> mirror (setLocalState newState w) = newState
       \<and> state r = localState w0"
proof (intro conjI allI impI)
  have cb: "setState r = setState_body (localState w0)"
    using assms(1) by (simp add: setState_useWidget)
  have st: "state r = localState w0"
    using assms(1) by (simp add: state_useWidget)
  have new: "newState = (case a of Updater f \<Rightarrow> f (localState w0) | Value v \<Rightarrow> v)"
    unfolding assms(2) st by (rule refl)
  {
    fix h m
    assume hm: "host e = Some h \<and> openai_setWidgetState h = Some m"
    then have eq: "setState r a e w =
       (async_return (m newState), called (SetWidgetState newState) e,
        setLocalState newState w)"
      unfolding cb new by (simp add: setState_body_available)
    show "snd (setState r a e w) =
       (e\<lparr>trace := trace e @ [SetWidgetState newState]\<rparr>, setLocalState newState w)"
      by (simp add: eq called_def)
    show "fst (setState r a e w) = p" if "m newState = Return p" for p
      using that by (simp add: eq)
    show "fst (setState r a e w) = Rejected x" if "m newState = Throw x" for x
      using that by (simp add: eq)
  }
  {
    assume "host e = None \<or> (\<exists>h. host e = Some h \<and> openai_setWidgetState h = None)"
    then show "setState r a e w = (Fulfilled (), e, setLocalState newState w)"
      unfolding cb new by (rule setState_body_unavailable)
  }
  show "state r = localState w0" by (rule st)
next
  show "mirror (setLocalState newState w) = newState" by (rule mirror_setLocalState)
qed

lemma firstRender_standalone: "firstRender standalone = \<lparr>localState = Null, queue = []\<rparr>"
  by (simp add: firstRender_def snapshot_no_host host_standalone coalesce_def)

text \<open>The rejection of the host's \<^verbatim>\<open>setWidgetState\<close> is the rejection of \<^verbatim>\<open>setState\<close>.\<close>

lemma setState_host_rejects:
  "setState (useWidget Undefined (with_host rejecting_host) (firstRender (with_host rejecting_host)))
     (Value (Num 5)) (with_host rejecting_host) (firstRender (with_host rejecting_host))
   = (Rejected (Error ''quota exceeded''),
      (with_host rejecting_host)\<lparr>trace := [SetWidgetState (Num 5)]\<rparr>,
      setLocalState (Num 5) (firstRender (with_host rejecting_host)))"
proof -
  have a: "openai_setWidgetState rejecting_host = Some persist_rejects"
    by (simp add: rejecting_host_def)
  have t: "trace (with_host rejecting_host) = []" by (simp add: with_host_def)
  show ?thesis
    by (simp add: setState_useWidget setState_body_available [OF host_with_host a]
        persist_rejects_def called_def t)
qed

text \<open>
  C2.  The code at an input of the claim: no host, a freshly mounted component, and
  \<^verbatim>\<open>setState(5)\<close> already called, so that the mirror is \<open>5\<close>.  Called now with an updater
  \<open>f\<close>, the \<^verbatim>\<open>setState\<close> of the same render applies \<open>f\<close> to the \<^verbatim>\<open>localState\<close> it captured,
  \<^verbatim>\<open>null\<close>, and not to the mirrored state \<open>5\<close>; it completes without error and calls no host
  method.
\<close>

theorem setState_updater_reads_captured_state:
  "mirror (setLocalState (Num 5) (firstRender standalone)) = Num 5
   \<and> setState (useWidget Undefined standalone (firstRender standalone)) (Updater f) standalone
       (setLocalState (Num 5) (firstRender standalone))
     = (Fulfilled (), standalone,
        setLocalState (f Null) (setLocalState (Num 5) (firstRender standalone)))"
  by (simp add: mirror_setLocalState setState_useWidget setState_body_unavailable
      host_standalone firstRender_standalone)

text \<open>
  C1.  The code at the claim's input: no host, a freshly mounted component whose mirror is
  \<^verbatim>\<open>null\<close>, and, with the \<^verbatim>\<open>setState\<close> of one render, \<^verbatim>\<open>setState(5)\<close> followed at once by
  \<^verbatim>\<open>setState(f)\<close>.  The second call applies \<open>f\<close> to the \<^verbatim>\<open>localState\<close> its callback captured,
  which is \<^verbatim>\<open>null\<close>, not \<open>5\<close>; the mirror ends as \<open>f null\<close>.
\<close>

theorem setState_twice_stale_updater:
  "localState (setState_twice (useWidget Undefined standalone (firstRender standalone))
      (Value (Num 5)) (Updater f) standalone (firstRender standalone)) = f Null"
  by (simp add: setState_twice_def useWidget_def firstRender_def standalone_def
      setState_body_def host_def useOpenAiGlobal_def coalesce_def rerender_setLocalState)

text \<open>
  With a render between the two calls, and the second call made through the \<^verbatim>\<open>setState\<close> of
  that render, the updater does receive the value the first call set.
\<close>

lemma setState_after_rerender:
  assumes "host e = None \<or> (\<exists>h. host e = Some h \<and> openai_setWidgetState h = None)"
    and "setState (useWidget d e w) (Value v) e w = (p1, e1, w1)"
    and "setState (useWidget d e1 (rerender w1)) (Updater f) e1 (rerender w1) = (p2, e2, w2)"
  shows "localState (rerender w2) = f v"
proof -
  from assms(1,2) have e1: "e1 = e" and w1: "w1 = setLocalState v w"
    by (simp_all add: setState_useWidget setState_body_unavailable)
  from assms(1,3) have "w2 = setLocalState (f v) (rerender w1)"
    by (simp add: e1 w1 setState_useWidget setState_body_unavailable rerender_setLocalState)
  then show ?thesis by (simp add: rerender_setLocalState)
qed

subsection \<open>useWidgetState: initialisation on mount\<close>

lemma useWidgetState_effect_skipped:
  "host e = None \<or> (\<exists>h. host e = Some h \<and> openai_setWidgetState h = None) \<Longrightarrow>
     useWidgetState_effect d r e w = (e, w)"
  by (auto simp: useWidgetState_effect_def)

lemma useWidgetState_effect_no_default: "useWidgetState_effect Undefined r e w = (e, w)"
  by (simp add: useWidgetState_effect_def)

text \<open>Running the effect of \<^verbatim>\<open>useWidget\<close> a second time does not change what the next render reads.\<close>

lemma rerender_effect_twice:
  "rerender (useWidget_effect e (useWidget_effect e w)) = rerender (useWidget_effect e w)"
  by (simp add: rerender_def mirror_def useWidget_effect_def setLocalState_def)

lemma mount_skipped:
  "host e = None \<or> (\<exists>h. host e = Some h \<and> openai_setWidgetState h = None) \<Longrightarrow>
     mount strict d e = (e, rerender (useWidget_effect e (firstRender e)))"
  by (cases strict)
    (simp_all add: mount_def Let_def useWidgetState_effect_skipped rerender_effect_twice)

lemma mount_no_default:
  "mount strict Undefined e = (e, rerender (useWidget_effect e (firstRender e)))"
  by (cases strict)
    (simp_all add: mount_def Let_def useWidgetState_effect_no_default rerender_effect_twice)

lemma mirror_effect_firstRender:
  "mirror (useWidget_effect e (firstRender e)) = coalesce (useOpenAiGlobal KWidgetState e) Null"
  by (simp add: useWidget_effect_def firstRender_def mirror_def setLocalState_def coalesce_def)

lemma fst_useWidgetState: "fst (useWidgetState d e w) = localState w"
  by (simp add: useWidgetState_def state_useWidget)

lemma host_called: "host (called c e) = host e"
  by (simp add: host_def called_def)

lemma useWidgetState_effect_applies:
  assumes "host e = Some h" and "openai_setWidgetState h = Some m"
    and "state r = Null" and "setState r = setState_body c" and "d \<noteq> Undefined"
  shows "useWidgetState_effect d r e w = (called (SetWidgetState d) e, setLocalState d w)"
proof -
  have w: "window e \<noteq> None" using assms(1) by (auto simp: host_def split: option.splits)
  show ?thesis
    using assms w by (simp add: useWidgetState_effect_def setState_body_available)
qed

lemma first_render_unset:
  assumes "host e = Some h" and "openai_widgetState h = Undefined"
  shows "state (useWidget Undefined e (firstRender e)) = Null"
    and "setState (useWidget Undefined e (firstRender e)) = setState_body Null"
  using assms
  by (simp_all add: state_useWidget setState_useWidget firstRender_def snapshot_host
      coalesce_def)

lemma useWidget_effect_unset:
  "host e = Some h \<Longrightarrow> openai_widgetState h = Undefined \<Longrightarrow> useWidget_effect e w = w"
  by (simp add: useWidget_effect_def snapshot_host)

lemma mount_applies_default:
  assumes "host e = Some h" and "openai_setWidgetState h = Some m"
    and "openai_widgetState h = Undefined" and "d \<noteq> Undefined"
  shows "mount False d e =
           (e\<lparr>trace := trace e @ [SetWidgetState d]\<rparr>, \<lparr>localState = d, queue = []\<rparr>)"
proof -
  have "useWidgetState_effect d (useWidget Undefined e (firstRender e)) e
          (useWidget_effect e (firstRender e))
        = (called (SetWidgetState d) e, setLocalState d (firstRender e))"
    using assms
    by (simp add: useWidget_effect_unset
        useWidgetState_effect_applies [OF assms(1,2) first_render_unset [OF assms(1,3)]])
  then show ?thesis
    by (simp add: mount_def rerender_setLocalState called_def)
qed

text \<open>
  Under \<^verbatim>\<open>React.StrictMode\<close> in development the second run of the effect still reads the first
  render's \<^verbatim>\<open>state\<close>, which is \<^verbatim>\<open>null\<close>, and calls the host's \<^verbatim>\<open>setWidgetState\<close> a second time.
\<close>

lemma mount_strict_persists_twice:
  assumes "host e = Some h" and "openai_setWidgetState h = Some m"
    and "openai_widgetState h = Undefined" and "d \<noteq> Undefined"
  shows "mount True d e =
           (e\<lparr>trace := trace e @ [SetWidgetState d, SetWidgetState d]\<rparr>,
            \<lparr>localState = d, queue = []\<rparr>)"
proof -
  let ?r = "useWidget Undefined e (firstRender e)"
  let ?e2 = "called (SetWidgetState d) e"
  have h2: "host ?e2 = Some h" using assms(1) by (simp add: host_called)
  have first: "useWidgetState_effect d ?r e (useWidget_effect e (firstRender e))
               = (?e2, setLocalState d (firstRender e))"
    using assms
    by (simp add: useWidget_effect_unset
        useWidgetState_effect_applies [OF assms(1,2) first_render_unset [OF assms(1,3)]])
  have second: "useWidgetState_effect d ?r ?e2
                  (useWidget_effect ?e2 (setLocalState d (firstRender e)))
                = (called (SetWidgetState d) ?e2,
                   setLocalState d (setLocalState d (firstRender e)))"
    using assms(4)
    by (simp add: useWidget_effect_unset [OF h2 assms(3)]
        useWidgetState_effect_applies [OF h2 assms(2) first_render_unset [OF assms(1,3)]])
  have "mount True d e =
          (called (SetWidgetState d) ?e2,
           rerender (setLocalState d (setLocalState d (firstRender e))))"
    by (simp add: mount_def Let_def first second)
  then show ?thesis
    by (simp add: rerender_setLocalState called_def)
qed

text \<open>
  C8, as amended.  The host global is present and has \<^verbatim>\<open>setWidgetState\<close>, its \<^verbatim>\<open>widgetState\<close>
  is not set, the component calls \<^verbatim>\<open>useWidgetState([])\<close>, and the mount effects run once (no
  second run by \<^verbatim>\<open>React.StrictMode\<close> in development).  After mount the state the hook returns
  is \<^verbatim>\<open>[]\<close>, and the host's \<^verbatim>\<open>setWidgetState\<close> has been called exactly once, with \<^verbatim>\<open>[]\<close>.
\<close>

theorem mount_initialises_from_default:
  assumes "host e = Some h" and "openai_setWidgetState h = Some m"
    and "openai_widgetState h = Undefined" and "mount False (Arr []) e = (e', w')"
  shows "fst (useWidgetState (Arr []) e' w') = Arr []
       \<and> trace e' = trace e @ [SetWidgetState (Arr [])]"
  using mount_applies_default [OF assms(1-3), of "Arr []"] assms(4)
  by (auto simp: fst_useWidgetState)

theorem mount_initialises_from_default_witness:
  "host (with_host persisting_host) = Some persisting_host
   \<and> openai_setWidgetState persisting_host = Some persist_ok
   \<and> openai_widgetState persisting_host = Undefined
   \<and> mount False (Arr []) (with_host persisting_host) =
       ((with_host persisting_host)\<lparr>trace := [SetWidgetState (Arr [])]\<rparr>,
        \<lparr>localState = Arr [], queue = []\<rparr>)
   \<and> fst (useWidgetState (Arr [])
            ((with_host persisting_host)\<lparr>trace := [SetWidgetState (Arr [])]\<rparr>)
            \<lparr>localState = Arr [], queue = []\<rparr>) = Arr []
   \<and> trace ((with_host persisting_host)\<lparr>trace := [SetWidgetState (Arr [])]\<rparr>)
       = trace (with_host persisting_host) @ [SetWidgetState (Arr [])]"
proof -
  have a: "openai_setWidgetState persisting_host = Some persist_ok"
    by (simp add: persisting_host_def)
  have b: "openai_widgetState persisting_host = Undefined"
    by (simp add: persisting_host_def bare_host_def)
  have t: "trace (with_host persisting_host) = []" by (simp add: with_host_def)
  have c: "mount False (Arr []) (with_host persisting_host) =
       ((with_host persisting_host)\<lparr>trace := [SetWidgetState (Arr [])]\<rparr>,
        \<lparr>localState = Arr [], queue = []\<rparr>)"
    using mount_applies_default [OF host_with_host a b, of "Arr []"] t by simp
  from mount_initialises_from_default [OF host_with_host a b c] a b c
  show ?thesis by (simp add: host_with_host)
qed

text \<open>
  C8, as stated, fails for a host global that is present but has no \<^verbatim>\<open>setWidgetState\<close>:
  after mount the state the hook returns is not \<^verbatim>\<open>[]\<close>, and no host method was called.
\<close>

theorem mount_without_persistence_action:
  "host (with_host bare_host) = Some bare_host \<and> openai_widgetState bare_host = Undefined
   \<and> fst (useWidgetState (Arr []) (fst (mount False (Arr []) (with_host bare_host)))
            (snd (mount False (Arr []) (with_host bare_host)))) \<noteq> Arr []
   \<and> trace (fst (mount False (Arr []) (with_host bare_host))) = []"
  by (simp add: mount_def with_host_def bare_host_def host_def useWidgetState_effect_def
      firstRender_def useWidget_effect_def useOpenAiGlobal_def coalesce_def rerender_def
      mirror_def useWidget_def useWidgetState_def)

text \<open>
  C9.  When the host's \<^verbatim>\<open>setWidgetState\<close> is absent (the host global may be absent
  altogether), mounting \<^verbatim>\<open>useWidgetState(d)\<close>, with or without a second run of the effects,
  calls no host method and leaves the environment as it was, and the hook's cell is the one
  it would be with no default at all: the default is not applied, not even locally.  A mirror
  that is \<^verbatim>\<open>null\<close> at the first render is \<^verbatim>\<open>null\<close> after mount, and it is \<^verbatim>\<open>null\<close> whenever the
  host global is absent.
\<close>

theorem default_not_applied_without_persistence:
  assumes "host e = None \<or> (\<exists>h. host e = Some h \<and> openai_setWidgetState h = None)"
  shows "fst (mount strict d e) = e
       \<and> snd (mount strict d e) = snd (mount strict Undefined e)
       \<and> snd (mount strict d e) = snd (mount False Undefined e)
       \<and> (fst (useWidgetState d e (firstRender e)) = Null \<longrightarrow>
            fst (useWidgetState d e (snd (mount strict d e))) = Null)
       \<and> (host e = None \<longrightarrow> fst (useWidgetState d e (snd (mount strict d e))) = Null)"
proof (intro conjI impI)
  show "fst (mount strict d e) = e" using assms by (simp add: mount_skipped)
  show "snd (mount strict d e) = snd (mount strict Undefined e)"
    using assms by (simp add: mount_skipped mount_no_default)
  show "snd (mount strict d e) = snd (mount False Undefined e)"
    using assms by (simp add: mount_skipped mount_no_default)
  have after: "fst (useWidgetState d e (snd (mount strict d e)))
                 = coalesce (useOpenAiGlobal KWidgetState e) Null"
    using assms
    by (simp add: mount_skipped rerender_def mirror_effect_firstRender fst_useWidgetState)
  show "fst (useWidgetState d e (snd (mount strict d e))) = Null"
    if "fst (useWidgetState d e (firstRender e)) = Null"
    using that after by (simp add: firstRender_def fst_useWidgetState)
  show "fst (useWidgetState d e (snd (mount strict d e))) = Null" if "host e = None"
    using that after by (simp add: snapshot_no_host coalesce_def)
qed

theorem default_not_applied_without_persistence_witness:
  "host standalone = None
   \<and> mount False (Arr []) standalone = (standalone, \<lparr>localState = Null, queue = []\<rparr>)
   \<and> mount True (Arr []) standalone = (standalone, \<lparr>localState = Null, queue = []\<rparr>)
   \<and> mount False Undefined standalone = (standalone, \<lparr>localState = Null, queue = []\<rparr>)
   \<and> fst (useWidgetState (Arr []) standalone (firstRender standalone)) = Null
   \<and> fst (useWidgetState (Arr []) standalone (snd (mount False (Arr []) standalone))) = Null
   \<and> fst (useWidgetState (Arr []) standalone (snd (mount True (Arr []) standalone))) = Null"
proof -
  have a: "host standalone = None \<or>
             (\<exists>h. host standalone = Some h \<and> openai_setWidgetState h = None)"
    by (simp add: host_standalone)
  have b: "mount False Undefined standalone = (standalone, \<lparr>localState = Null, queue = []\<rparr>)"
    by (simp add: mount_no_default firstRender_standalone useWidget_effect_def
        snapshot_no_host host_standalone rerender_def mirror_def)
  have c: "fst (useWidgetState (Arr []) standalone (firstRender standalone)) = Null"
    by (simp add: fst_useWidgetState firstRender_standalone)
  from default_not_applied_without_persistence [OF a, of False "Arr []"]
       default_not_applied_without_persistence [OF a, of True "Arr []"] b c
  show ?thesis by (auto simp: host_standalone prod_eq_iff)
qed

end
